theory Spec2Isabelle
  imports Main
begin

section \<open>Values that cross the boundary of the program\<close>

text \<open>
  The value \<open>response.json()\<close> resolves to. The type of numbers is a parameter: the
  program never computes with them, it only tests them for truthiness.
\<close>

datatype 'n json =
    JNull
  | JBool bool
  | JNum 'n
  | JStr string
  | JArr "'n json list"
  | JObj "(string \<times> 'n json) list"

text \<open>
  What a \<open>catch\<close> clause can receive from the platform: an \<open>Error\<close> object with its
  message (a rejected \<open>fetch\<close>, \<open>text()\<close> or \<open>json()\<close>); the \<open>TypeError\<close> the
  engine raises when the named property is read off \<open>null\<close> or \<open>undefined\<close>; the
  \<open>TypeError\<close> it raises when a value cannot be converted to a string; \<open>null\<close> or
  \<open>undefined\<close> itself; or another thrown value that is not an \<open>Error\<close> instance.
\<close>

datatype thrown =
    ErrorInstance string
  | TypeErrorNull string
  | TypeErrorConvert
  | Nullish
  | NonError

text \<open>JavaScript truthiness of a parsed value.\<close>

fun truthy :: "('n::zero) json \<Rightarrow> bool" where
  "truthy JNull = False"
| "truthy (JBool b) = b"
| "truthy (JNum n) = (n \<noteq> 0)"
| "truthy (JStr s) = (s \<noteq> [])"
| "truthy (JArr xs) = True"
| "truthy (JObj kvs) = True"

text \<open>
  Reading a property named by one of the program's keys (\<open>data\<close>, \<open>embedding\<close>,
  \<open>scraped\<close>, ...) off a value that is not \<open>null\<close>: only an object can have it;
  \<open>None\<close> is \<open>undefined\<close>. \<open>JObj\<close> lists the properties of the parsed object,
  each key once. Reading off \<open>null\<close> throws, which the callers write out.
\<close>

fun get_prop :: "'n json \<Rightarrow> string \<Rightarrow> 'n json option" where
  "get_prop (JObj kvs) k = map_of kvs k"
| "get_prop v k = None"

section \<open>src/lib/ai/embeddings.ts\<close>

subsection \<open>Responses, errors and the observable trace\<close>

text \<open>
  A response of \<open>fetch\<close>: its status, what \<open>text()\<close> gives and what \<open>json()\<close> gives
  (\<open>Inl\<close> when the promise rejects).
\<close>

record 'n response =
  status :: nat
  text_body :: "thrown + string"
  json_body :: "thrown + 'n json"

text \<open>\<open>response.ok\<close>: the status is in the range 200 to 299.\<close>

definition ok :: "('n, 'x) response_scheme \<Rightarrow> bool" where
  "ok r = (200 \<le> status r \<and> status r \<le> 299)"

datatype 'n fetch_outcome =
    Rejects thrown
  | Resolves "'n response"

text \<open>
  One constructor for every \<open>throw\<close> of the module, carrying the values its message
  interpolates, and \<open>Thrown\<close> for what the platform throws inside the \<open>try\<close> block.
\<close>

datatype js_error =
    MissingApiKey
  | ApiError nat string
  | InvalidResponseFormat
  | EmbeddingNotArray
  | WrongDimensions nat
  | RetriesExhausted
  | PreferencesNotSet
  | Thrown thrown

text \<open>
  The effects of the module, in the order they happen: a request to the embeddings
  endpoint with its input text, a \<open>setTimeout\<close> wait in milliseconds, a query of the
  \<open>user_preferences\<close> table. Console output is left out.
\<close>

datatype event =
    Fetch string
  | Sleep nat
  | Query

fun is_Fetch :: "event \<Rightarrow> bool" where
  "is_Fetch (Fetch t) = True"
| "is_Fetch e = False"

fun is_Query :: "event \<Rightarrow> bool" where
  "is_Query Query = True"
| "is_Query e = False"

definition fetch_count :: "event list \<Rightarrow> nat" where
  "fetch_count tr = length (filter is_Fetch tr)"

definition query_count :: "event list \<Rightarrow> nat" where
  "query_count tr = length (filter is_Query tr)"

subsection \<open>generateEmbedding\<close>

definition maxRetries :: nat where
  "maxRetries = 3"

text \<open>Lines 60 to 82: the checks on the parsed body of a successful response.\<close>

definition extract_embedding :: "('n::zero) json \<Rightarrow> js_error + 'n json list" where
  "extract_embedding result =
     (case result of
        JNull \<Rightarrow> Inl (Thrown (TypeErrorNull ''data''))
      | _ \<Rightarrow>
        (case get_prop result ''data'' of
           Some (JArr ds) \<Rightarrow>
             (case ds of
                [] \<Rightarrow> Inl InvalidResponseFormat
              | d # _ \<Rightarrow>
                  if \<not> truthy d then Inl InvalidResponseFormat
                  else (case get_prop d ''embedding'' of
                          Some (JArr embedding) \<Rightarrow>
                            if length embedding \<noteq> 768
                            then Inl (WrongDimensions (length embedding))
                            else Inr embedding
                        | _ \<Rightarrow> Inl EmbeddingNotArray))
         | _ \<Rightarrow> Inl InvalidResponseFormat))"

text \<open>How the body of the \<open>try\<close> block ends: \<open>return\<close>, \<open>continue\<close> or a throw.\<close>

datatype 'n completion =
    Return "'n json list"
  | Continue
  | Throw js_error

text \<open>
  Lines 38 to 82, after the request of this attempt has been answered: the completion
  and the waits made inside the \<open>try\<close> block.
\<close>

definition try_block :: "('n::zero) fetch_outcome \<Rightarrow> nat \<Rightarrow> 'n completion \<times> event list" where
  "try_block outcome attempt =
     (case outcome of
        Rejects e \<Rightarrow> (Throw (Thrown e), [])
      | Resolves response \<Rightarrow>
          if \<not> ok response then
            (case text_body response of
               Inl e \<Rightarrow> (Throw (Thrown e), [])
             | Inr errorText \<Rightarrow>
                 if status response = 429 \<and> attempt < maxRetries
                 then (Continue, [Sleep (2 ^ attempt * 5000)])
                 else if status response \<ge> 500 \<and> attempt < maxRetries
                 then (Continue, [Sleep 5000])
                 else (Throw (ApiError (status response) errorText), []))
          else
            (case json_body response of
               Inl e \<Rightarrow> (Throw (Thrown e), [])
             | Inr result \<Rightarrow>
                 (case extract_embedding result of
                    Inl e \<Rightarrow> (Throw e, [])
                  | Inr embedding \<Rightarrow> (Return embedding, []))))"

text \<open>
  The \<open>for\<close> loop of lines 19 to 99, entered with the given attempt number. \<open>net\<close>
  answers the requests of the process: \<open>net i\<close> is the outcome of request number \<open>i\<close>,
  counted from 0. The \<open>catch\<close> block first reads \<open>error.message\<close> (line 85), which
  itself throws, out of the function, when the caught value is \<open>null\<close> or
  \<open>undefined\<close>; only then does it test the attempt number.
\<close>

function attempt_loop ::
  "(nat \<Rightarrow> ('n::zero) fetch_outcome) \<Rightarrow> string \<Rightarrow> nat \<Rightarrow> event list
     \<Rightarrow> (js_error + 'n json list) \<times> event list" where
  "attempt_loop net txt attempt tr =
     (if attempt \<le> maxRetries then
        (case try_block (net (fetch_count tr)) attempt of
           (Return embedding, evs) \<Rightarrow> (Inr embedding, tr @ [Fetch txt] @ evs)
         | (Continue, evs) \<Rightarrow> attempt_loop net txt (attempt + 1) (tr @ [Fetch txt] @ evs)
         | (Throw error, evs) \<Rightarrow>
             if error = Thrown Nullish
             then (Inl (Thrown (TypeErrorNull ''message'')), tr @ [Fetch txt] @ evs)
             else if attempt = maxRetries then (Inl error, tr @ [Fetch txt] @ evs)
             else attempt_loop net txt (attempt + 1)
                    (tr @ [Fetch txt] @ evs @ [Sleep (2 ^ attempt * 2000)]))
      else (Inl RetriesExhausted, tr))"
  by pat_completeness auto
termination
  by (relation "measure (\<lambda>(net, txt, attempt, tr). maxRetries + 1 - attempt)") auto

declare attempt_loop.simps [simp del]

text \<open>
  \<open>JINA_API_KEY\<close> is \<open>process.env.JINA_API_KEY\<close>: absent, or a string; the empty
  string is falsy as well.
\<close>

definition key_missing :: "string option \<Rightarrow> bool" where
  "key_missing k = (case k of None \<Rightarrow> True | Some s \<Rightarrow> s = [])"

definition generateEmbedding ::
  "string option \<Rightarrow> (nat \<Rightarrow> ('n::zero) fetch_outcome) \<Rightarrow> string \<Rightarrow> event list
     \<Rightarrow> (js_error + 'n json list) \<times> event list" where
  "generateEmbedding JINA_API_KEY net txt tr =
     (if key_missing JINA_API_KEY then (Inl MissingApiKey, tr)
      else attempt_loop net txt 1 tr)"

subsection \<open>generateUserSkillsEmbedding and its cache\<close>

text \<open>
  The row of \<open>user_preferences\<close> the query selects, and the pair the Supabase client
  resolves to: \<open>data\<close> is \<open>null\<close> when there is no row, \<open>error\<close> is \<open>null\<close>
  when the query went through. The column \<open>skills\<close> is an array of strings, as the
  code's \<open>prefs.skills.length\<close> and \<open>prefs.skills.join\<close> take it to be.
\<close>

record prefs =
  skills :: "string list"

record query_result =
  data :: "prefs option"
  error :: "string option"

text \<open>
  The state of the process: the module variable \<open>cachedUserSkillsEmbedding\<close> and the
  trace of effects so far.
\<close>

record 'n process =
  cachedUserSkillsEmbedding :: "'n json list option"
  trace :: "event list"

text \<open>\<open>skills.join(', ')\<close>\<close>

fun join :: "string \<Rightarrow> string list \<Rightarrow> string" where
  "join sep [] = []"
| "join sep [s] = s"
| "join sep (s # t # ts) = s @ sep @ join sep (t # ts)"

text \<open>
  Lines 105 to 130. \<open>db i\<close> is what query number \<open>i\<close> of the process resolves to,
  counted from 0, so the stored preferences may change between two calls.
\<close>

definition generateUserSkillsEmbedding ::
  "string option \<Rightarrow> (nat \<Rightarrow> ('n::zero) fetch_outcome) \<Rightarrow> (nat \<Rightarrow> query_result)
     \<Rightarrow> 'n process \<Rightarrow> (js_error + 'n json list) \<times> 'n process" where
  "generateUserSkillsEmbedding JINA_API_KEY net db s =
     (case cachedUserSkillsEmbedding s of
        Some cached \<Rightarrow> (Inr cached, s)
      | None \<Rightarrow>
          (let answer = db (query_count (trace s));
               s1 = s\<lparr>trace := trace s @ [Query]\<rparr>
           in case (error answer, data answer) of
                (Some err, _) \<Rightarrow> (Inl PreferencesNotSet, s1)
              | (None, None) \<Rightarrow> (Inl PreferencesNotSet, s1)
              | (None, Some prefs) \<Rightarrow>
                  if length (skills prefs) = 0 then (Inl PreferencesNotSet, s1)
                  else
                    (let skillsText = join '', '' (skills prefs)
                     in case generateEmbedding JINA_API_KEY net skillsText (trace s1) of
                          (Inl e, tr) \<Rightarrow> (Inl e, s1\<lparr>trace := tr\<rparr>)
                        | (Inr embedding, tr) \<Rightarrow>
                            (Inr embedding,
                             s1\<lparr>cachedUserSkillsEmbedding := Some embedding, trace := tr\<rparr>))))"

definition clearUserSkillsCache :: "'n process \<Rightarrow> 'n process" where
  "clearUserSkillsCache s = s\<lparr>cachedUserSkillsEmbedding := None\<rparr>"

section \<open>The pipeline trigger: handleTrigger\<close>

text \<open>
  The message of the result, as the template literal builds it: the success text with
  its two interpolated values, or the error text with its detail. The detail is the
  value of \<open>data.error\<close>, a fixed text, or the message of the caught \<open>Error\<close>.
\<close>

datatype 'n detail =
    Value "'n json"
  | Literal string
  | MessageOf thrown

datatype 'n message =
    SuccessMessage "'n json" "'n json"
  | ErrorMessage "'n detail"

record 'n trigger_result =
  success :: bool
  message :: "'n message"

text \<open>The two state variables of the component.\<close>

record 'n component =
  isLoading :: bool
  result :: "'n trigger_result option"

text \<open>
  Whether a template literal can interpolate the value. An object parsed from JSON is
  converted by the inherited \<open>toString\<close> unless it has a property of that name of its
  own, which is never callable, and then the conversion throws a \<open>TypeError\<close>. An array
  is joined: its elements are converted in turn, \<open>null\<close> giving the empty string.
\<close>

fun stringifiable :: "'n json \<Rightarrow> bool" where
  "stringifiable (JArr xs) = list_all stringifiable xs"
| "stringifiable (JObj kvs) = (map_of kvs ''toString'' = None)"
| "stringifiable v = True"

text \<open>\<open>x || 0\<close> and \<open>x || 'Failed to run pipeline'\<close>, where \<open>x\<close> may be \<open>undefined\<close>.\<close>

definition or_else :: "('n::zero) json option \<Rightarrow> 'n json \<Rightarrow> 'n json" where
  "or_else x d = (case x of None \<Rightarrow> d | Some v \<Rightarrow> if truthy v then v else d)"

text \<open>\<open>x?.k\<close>: \<open>undefined\<close> when \<open>x\<close> is \<open>undefined\<close> or \<open>null\<close>.\<close>

definition opt_chain :: "'n json option \<Rightarrow> string \<Rightarrow> 'n json option" where
  "opt_chain x k =
     (case x of None \<Rightarrow> None | Some JNull \<Rightarrow> None | Some v \<Rightarrow> get_prop v k)"

text \<open>
  Lines 18 to 44, the \<open>try\<close> block once \<open>fetch\<close> has been answered: the result it
  sets, or what it throws. Building either message converts the interpolated values to
  strings, which can throw.
\<close>

definition trigger_try :: "('n::zero) fetch_outcome \<Rightarrow> thrown + 'n trigger_result" where
  "trigger_try outcome =
     (case outcome of
        Rejects e \<Rightarrow> Inl e
      | Resolves response \<Rightarrow>
          (case json_body response of
             Inl e \<Rightarrow> Inl e
           | Inr d \<Rightarrow>
               if ok response then
                 (case d of
                    JNull \<Rightarrow> Inl (TypeErrorNull ''scraped'')
                  | _ \<Rightarrow>
                      (let jobsScraped = or_else (opt_chain (get_prop d ''scraped'') ''jobsScraped'') (JNum 0);
                           jobsProcessed = or_else (opt_chain (get_prop d ''processed'') ''success'') (JNum 0)
                       in if stringifiable jobsScraped \<and> stringifiable jobsProcessed
                          then Inr \<lparr>success = True,
                                     message = SuccessMessage jobsScraped jobsProcessed\<rparr>
                          else Inl TypeErrorConvert))
               else
                 (case d of
                    JNull \<Rightarrow> Inl (TypeErrorNull ''error'')
                  | _ \<Rightarrow>
                      (let detail = or_else (get_prop d ''error'') (JStr ''Failed to run pipeline'')
                       in if stringifiable detail
                          then Inr \<lparr>success = False, message = ErrorMessage (Value detail)\<rparr>
                          else Inl TypeErrorConvert))))"

text \<open>Lines 45 to 49: \<open>error instanceof Error ? error.message : 'Network error'\<close>.\<close>

fun catch_detail :: "thrown \<Rightarrow> 'n detail" where
  "catch_detail NonError = Literal ''Network error''"
| "catch_detail Nullish = Literal ''Network error''"
| "catch_detail e = MessageOf e"

text \<open>
  The whole handler: the two state updates before the request, the \<open>try\<close> and
  \<open>catch\<close> blocks, and \<open>finally\<close>.
\<close>

definition handleTrigger :: "('n::zero) fetch_outcome \<Rightarrow> 'n component \<Rightarrow> 'n component" where
  "handleTrigger outcome c =
     (let c1 = c\<lparr>isLoading := True\<rparr>;
          c2 = c1\<lparr>result := None\<rparr>;
          c3 = (case trigger_try outcome of
                  Inr r \<Rightarrow> c2\<lparr>result := Some r\<rparr>
                | Inl e \<Rightarrow>
                    c2\<lparr>result := Some \<lparr>success = False,
                                         message = ErrorMessage (catch_detail e)\<rparr>\<rparr>)
      in c3\<lparr>isLoading := False\<rparr>)"

text \<open>
  The two states the handler can end in, written from the state it started in: the
  success result with its two counts, and the failure result with its detail.
\<close>

abbreviation succeeded :: "'n component \<Rightarrow> 'n json \<Rightarrow> 'n json \<Rightarrow> 'n component" where
  "succeeded c jobsScraped jobsProcessed \<equiv>
     c\<lparr>isLoading := False,
       result := Some \<lparr>success = True,
                       message = SuccessMessage jobsScraped jobsProcessed\<rparr>\<rparr>"

abbreviation failed :: "'n component \<Rightarrow> 'n detail \<Rightarrow> 'n component" where
  "failed c dt \<equiv>
     c\<lparr>isLoading := False,
       result := Some \<lparr>success = False, message = ErrorMessage dt\<rparr>\<rparr>"

section \<open>Concrete responses, networks and states\<close>

text \<open>
  Bodies of the shape the provider documents, responses built from them, and scripted
  networks, used where a property is run on an explicit input.
\<close>

definition embedding_body :: "int json list \<Rightarrow> int json" where
  "embedding_body v = JObj [(''data'', JArr [JObj [(''embedding'', JArr v)]])]"

definition success_response :: "int json list \<Rightarrow> int response" where
  "success_response v =
     \<lparr>status = 200, text_body = Inr [], json_body = Inr (embedding_body v)\<rparr>"

definition error_response :: "nat \<Rightarrow> string \<Rightarrow> int response" where
  "error_response st b =
     \<lparr>status = st, text_body = Inr b, json_body = Inl (ErrorInstance ''Unexpected token'')\<rparr>"

definition ones :: "int json list" where
  "ones = replicate 768 (JNum 1)"

definition net_400_then_ok :: "nat \<Rightarrow> int fetch_outcome" where
  "net_400_then_ok i =
     (if i = 0 then Resolves (error_response 400 ''Bad Request'')
      else Resolves (success_response ones))"

definition net_short_then_ok :: "nat \<Rightarrow> int fetch_outcome" where
  "net_short_then_ok i =
     (if i = 0 then Resolves (success_response [JNum 1, JNum 2, JNum 3])
      else Resolves (success_response ones))"

definition net_429_429_ok :: "nat \<Rightarrow> int fetch_outcome" where
  "net_429_429_ok i =
     (if i < 2 then Resolves (error_response 429 ''Too Many Requests'')
      else Resolves (success_response ones))"

definition net_500 :: "nat \<Rightarrow> int fetch_outcome" where
  "net_500 i =
     Resolves (error_response 500 (if i = 2 then ''third failure'' else ''earlier failure''))"

definition net_down :: "nat \<Rightarrow> int fetch_outcome" where
  "net_down i =
     Rejects (ErrorInstance (if i = 2 then ''socket hang up'' else ''fetch failed''))"

definition net_null :: "nat \<Rightarrow> int fetch_outcome" where
  "net_null i = Rejects Nullish"

definition react_node :: query_result where
  "react_node = \<lparr>data = Some \<lparr>skills = [''react'', ''node'']\<rparr>, error = None\<rparr>"

definition no_skills :: query_result where
  "no_skills = \<lparr>data = Some \<lparr>skills = []\<rparr>, error = None\<rparr>"

definition fresh :: "int process" where
  "fresh = \<lparr>cachedUserSkillsEmbedding = None, trace = []\<rparr>"

definition pipeline_ok :: "int response" where
  "pipeline_ok =
     \<lparr>status = 200, text_body = Inr [],
      json_body = Inr (JObj [(''scraped'', JObj [(''jobsScraped'', JNum 12)]),
                             (''processed'', JObj [])])\<rparr>"

definition pipeline_unauthorized :: "int response" where
  "pipeline_unauthorized =
     \<lparr>status = 401, text_body = Inr [],
      json_body = Inr (JObj [(''error'', JStr ''Unauthorized'')])\<rparr>"

definition pipeline_zero :: "int response" where
  "pipeline_zero =
     \<lparr>status = 200, text_body = Inr [],
      json_body = Inr (JObj [(''scraped'', JObj [(''jobsScraped'', JNum 0)]),
                             (''processed'', JObj [(''success'', JNum 5)])])\<rparr>"

definition pipeline_odd :: "int response" where
  "pipeline_odd =
     \<lparr>status = 200, text_body = Inr [],
      json_body = Inr (JObj [(''scraped'',
                              JObj [(''jobsScraped'', JObj [(''toString'', JNum 1)])])])\<rparr>"

definition idle :: "int component" where
  "idle = \<lparr>isLoading = False, result = None\<rparr>"

section \<open>Counting the effects of a trace\<close>

lemma fetch_count_simps [simp]:
  "fetch_count [] = 0"
  "fetch_count (Fetch t # tr) = Suc (fetch_count tr)"
  "fetch_count (Sleep n # tr) = fetch_count tr"
  "fetch_count (Query # tr) = fetch_count tr"
  "fetch_count (xs @ ys) = fetch_count xs + fetch_count ys"
  by (simp_all add: fetch_count_def)

lemma query_count_simps [simp]:
  "query_count [] = 0"
  "query_count (Fetch t # tr) = query_count tr"
  "query_count (Sleep n # tr) = query_count tr"
  "query_count (Query # tr) = Suc (query_count tr)"
  "query_count (xs @ ys) = query_count xs + query_count ys"
  by (simp_all add: query_count_def)

section \<open>One pass through the loop\<close>

text \<open>
  The four ways an attempt can go on, read off the loop itself.
\<close>

lemma attempt_loop_Return:
  "attempt \<le> maxRetries \<Longrightarrow> try_block (net (fetch_count tr)) attempt = (Return v, evs)
   \<Longrightarrow> attempt_loop net txt attempt tr = (Inr v, tr @ [Fetch txt] @ evs)"
  by (simp add: attempt_loop.simps)

lemma attempt_loop_Continue:
  "attempt \<le> maxRetries \<Longrightarrow> try_block (net (fetch_count tr)) attempt = (Continue, evs)
   \<Longrightarrow> attempt_loop net txt attempt tr = attempt_loop net txt (attempt + 1) (tr @ [Fetch txt] @ evs)"
  by (subst attempt_loop.simps) simp

lemma attempt_loop_Throw_last:
  "try_block (net (fetch_count tr)) maxRetries = (Throw e, evs) \<Longrightarrow> e \<noteq> Thrown Nullish
   \<Longrightarrow> attempt_loop net txt maxRetries tr = (Inl e, tr @ [Fetch txt] @ evs)"
  by (subst attempt_loop.simps) simp

lemma attempt_loop_Throw_retry:
  "attempt < maxRetries \<Longrightarrow> try_block (net (fetch_count tr)) attempt = (Throw e, evs)
   \<Longrightarrow> e \<noteq> Thrown Nullish
   \<Longrightarrow> attempt_loop net txt attempt tr
       = attempt_loop net txt (attempt + 1) (tr @ [Fetch txt] @ evs @ [Sleep (2 ^ attempt * 2000)])"
  by (subst attempt_loop.simps) simp

lemma attempt_loop_Throw_nullish:
  "attempt \<le> maxRetries
   \<Longrightarrow> try_block (net (fetch_count tr)) attempt = (Throw (Thrown Nullish), evs)
   \<Longrightarrow> attempt_loop net txt attempt tr
       = (Inl (Thrown (TypeErrorNull ''message'')), tr @ [Fetch txt] @ evs)"
  by (subst attempt_loop.simps) simp

lemma generateEmbedding_with_key:
  "\<not> key_missing k \<Longrightarrow> generateEmbedding k net t tr = attempt_loop net t 1 tr"
  by (simp add: generateEmbedding_def)

text \<open>
  What the \<open>try\<close> block does with each kind of answer.
\<close>

lemma not_ok_429: "status r = 429 \<Longrightarrow> \<not> ok r"
  by (simp add: ok_def)

lemma not_ok_500: "status r \<ge> 500 \<Longrightarrow> \<not> ok r"
  by (simp add: ok_def)

lemma try_block_Rejects: "try_block (Rejects e) attempt = (Throw (Thrown e), [])"
  by (simp add: try_block_def)

lemma try_block_429:
  "\<not> ok r \<Longrightarrow> status r = 429 \<Longrightarrow> text_body r = Inr b \<Longrightarrow> attempt < maxRetries
   \<Longrightarrow> try_block (Resolves r) attempt = (Continue, [Sleep (2 ^ attempt * 5000)])"
  by (simp add: try_block_def)

lemma try_block_5xx:
  "status r \<ge> 500 \<Longrightarrow> text_body r = Inr b \<Longrightarrow> attempt < maxRetries
   \<Longrightarrow> try_block (Resolves r) attempt = (Continue, [Sleep 5000])"
  by (simp add: try_block_def ok_def)

lemma try_block_error_status:
  "\<not> ok r \<Longrightarrow> text_body r = Inr b \<Longrightarrow> attempt \<ge> maxRetries \<or> (status r \<noteq> 429 \<and> status r < 500)
   \<Longrightarrow> try_block (Resolves r) attempt = (Throw (ApiError (status r) b), [])"
  by (auto simp add: try_block_def)

lemma try_block_ok:
  "ok r \<Longrightarrow> json_body r = Inr d \<Longrightarrow>
   try_block (Resolves r) attempt =
     (case extract_embedding d of Inl e \<Rightarrow> (Throw e, []) | Inr v \<Rightarrow> (Return v, []))"
  by (simp add: try_block_def)

lemma try_block_not_exhausted: "fst (try_block outcome attempt) \<noteq> Throw RetriesExhausted"
  by (auto simp add: try_block_def extract_embedding_def
      split: fetch_outcome.splits sum.splits json.splits option.splits list.splits)

lemma try_block_no_continue_last: "attempt \<ge> maxRetries \<Longrightarrow> fst (try_block outcome attempt) \<noteq> Continue"
  by (auto simp add: try_block_def split: fetch_outcome.splits sum.splits)

text \<open>
  The checks on a parsed body accept exactly the bodies whose \<open>data[0].embedding\<close> is
  a list of 768 elements, and hand that list back.
\<close>

lemma extract_embedding_Inr_iff:
  "extract_embedding body = Inr v \<longleftrightarrow>
     (\<exists>d ds. get_prop body ''data'' = Some (JArr (d # ds))
        \<and> get_prop d ''embedding'' = Some (JArr v) \<and> length v = 768)"
proof
  assume "extract_embedding body = Inr v"
  then show "\<exists>d ds. get_prop body ''data'' = Some (JArr (d # ds))
        \<and> get_prop d ''embedding'' = Some (JArr v) \<and> length v = 768"
    by (auto simp add: extract_embedding_def
        split: json.splits option.splits list.splits if_splits)
next
  assume "\<exists>d ds. get_prop body ''data'' = Some (JArr (d # ds))
        \<and> get_prop d ''embedding'' = Some (JArr v) \<and> length v = 768"
  then obtain d ds where a: "get_prop body ''data'' = Some (JArr (d # ds))"
    and b: "get_prop d ''embedding'' = Some (JArr v)" and c: "length v = 768"
    by blast
  from a obtain kvs where body: "body = JObj kvs" by (cases body) auto
  from b obtain kvs' where d: "d = JObj kvs'" by (cases d) auto
  from a b c body d show "extract_embedding body = Inr v"
    by (simp add: extract_embedding_def)
qed

lemma extract_embedding_Inl:
  "extract_embedding body = Inl e \<Longrightarrow>
     e = Thrown (TypeErrorNull ''data'') \<or> e = InvalidResponseFormat \<or> e = EmbeddingNotArray
     \<or> (\<exists>n. n \<noteq> 768 \<and> e = WrongDimensions n)"
  by (auto simp add: extract_embedding_def
      split: json.splits option.splits list.splits if_splits)

lemma extract_embedding_length: "extract_embedding body = Inr v \<Longrightarrow> length v = 768"
  by (auto simp add: extract_embedding_Inr_iff)

lemma try_block_Return_length: "try_block outcome attempt = (Return v, evs) \<Longrightarrow> length v = 768"
  by (auto simp add: try_block_def extract_embedding_length
      split: fetch_outcome.splits sum.splits if_splits)

text \<open>
  The two combined: what the loop does at a given attempt for each kind of answer.
\<close>

lemma attempt_loop_error_last:
  assumes "net (fetch_count tr) = Resolves r" "\<not> ok r" "text_body r = Inr b"
  shows "attempt_loop net t maxRetries tr = (Inl (ApiError (status r) b), tr @ [Fetch t])"
  using assms attempt_loop_Throw_last [of net tr "ApiError (status r) b" "[]" t]
  by (simp add: try_block_error_status)

lemma attempt_loop_error_retry:
  assumes "net (fetch_count tr) = Resolves r" "\<not> ok r" "text_body r = Inr b"
    "attempt < maxRetries" "status r \<noteq> 429" "status r < 500"
  shows "attempt_loop net t attempt tr
           = attempt_loop net t (attempt + 1) (tr @ [Fetch t, Sleep (2 ^ attempt * 2000)])"
  using assms attempt_loop_Throw_retry [of attempt net tr "ApiError (status r) b" "[]" t]
  by (simp add: try_block_error_status)

lemma attempt_loop_429:
  assumes "net (fetch_count tr) = Resolves r" "status r = 429" "text_body r = Inr b"
    "attempt < maxRetries"
  shows "attempt_loop net t attempt tr
           = attempt_loop net t (attempt + 1) (tr @ [Fetch t, Sleep (2 ^ attempt * 5000)])"
  using assms attempt_loop_Continue [of attempt net tr "[Sleep (2 ^ attempt * 5000)]" t]
  by (simp add: try_block_429 not_ok_429)

lemma attempt_loop_5xx:
  assumes "net (fetch_count tr) = Resolves r" "status r \<ge> 500" "text_body r = Inr b"
    "attempt < maxRetries"
  shows "attempt_loop net t attempt tr
           = attempt_loop net t (attempt + 1) (tr @ [Fetch t, Sleep 5000])"
  using assms attempt_loop_Continue [of attempt net tr "[Sleep 5000]" t]
  by (simp add: try_block_5xx)

lemma attempt_loop_Rejects_retry:
  assumes "net (fetch_count tr) = Rejects e" "attempt < maxRetries" "e \<noteq> Nullish"
  shows "attempt_loop net t attempt tr
           = attempt_loop net t (attempt + 1) (tr @ [Fetch t, Sleep (2 ^ attempt * 2000)])"
  using assms attempt_loop_Throw_retry [of attempt net tr "Thrown e" "[]" t]
  by (simp add: try_block_Rejects)

lemma attempt_loop_Rejects_last:
  assumes "net (fetch_count tr) = Rejects e" "e \<noteq> Nullish"
  shows "attempt_loop net t maxRetries tr = (Inl (Thrown e), tr @ [Fetch t])"
  using assms attempt_loop_Throw_last [of net tr "Thrown e" "[]" t]
  by (simp add: try_block_Rejects)

lemma attempt_loop_body_rejects_last:
  assumes "net (fetch_count tr) = Resolves r"
    "(\<not> ok r \<and> text_body r = Inl e) \<or> (ok r \<and> json_body r = Inl e)"
    "e \<noteq> Nullish"
  shows "attempt_loop net t maxRetries tr = (Inl (Thrown e), tr @ [Fetch t])"
  using assms attempt_loop_Throw_last [of net tr "Thrown e" "[]" t]
  by (auto simp add: try_block_def)

lemma attempt_loop_body_rejects_retry:
  assumes "net (fetch_count tr) = Resolves r"
    "(\<not> ok r \<and> text_body r = Inl e) \<or> (ok r \<and> json_body r = Inl e)"
    "attempt < maxRetries" "e \<noteq> Nullish"
  shows "attempt_loop net t attempt tr
           = attempt_loop net t (attempt + 1) (tr @ [Fetch t, Sleep (2 ^ attempt * 2000)])"
  using assms attempt_loop_Throw_retry [of attempt net tr "Thrown e" "[]" t]
  by (auto simp add: try_block_def)

lemma attempt_loop_nullish:
  assumes "net (fetch_count tr) = Rejects Nullish
           \<or> (\<exists>r. net (fetch_count tr) = Resolves r
                 \<and> ((\<not> ok r \<and> text_body r = Inl Nullish)
                      \<or> (ok r \<and> json_body r = Inl Nullish)))"
    "attempt \<le> maxRetries"
  shows "attempt_loop net t attempt tr
           = (Inl (Thrown (TypeErrorNull ''message'')), tr @ [Fetch t])"
  using assms attempt_loop_Throw_nullish [of attempt net tr "[]" t]
  by (auto simp add: try_block_def)

lemma extract_embedding_not_nullish: "extract_embedding body \<noteq> Inl (Thrown Nullish)"
  using extract_embedding_Inl [of body "Thrown Nullish"] by auto

lemma attempt_loop_success:
  assumes "net (fetch_count tr) = Resolves r" "ok r" "json_body r = Inr body"
    "extract_embedding body = Inr v" "attempt \<le> maxRetries"
  shows "attempt_loop net t attempt tr = (Inr v, tr @ [Fetch t])"
  using assms attempt_loop_Return [of attempt net tr v "[]" t]
  by (simp add: try_block_ok)

lemma attempt_loop_malformed_last:
  assumes "net (fetch_count tr) = Resolves r" "ok r" "json_body r = Inr body"
    "extract_embedding body = Inl e"
  shows "attempt_loop net t maxRetries tr = (Inl e, tr @ [Fetch t])"
  using assms attempt_loop_Throw_last [of net tr e "[]" t]
    extract_embedding_not_nullish [of body]
  by (auto simp add: try_block_ok)

lemma attempt_loop_malformed_retry:
  assumes "net (fetch_count tr) = Resolves r" "ok r" "json_body r = Inr body"
    "extract_embedding body = Inl e" "attempt < maxRetries"
  shows "attempt_loop net t attempt tr
           = attempt_loop net t (attempt + 1) (tr @ [Fetch t, Sleep (2 ^ attempt * 2000)])"
  using assms attempt_loop_Throw_retry [of attempt net tr e "[]" t]
    extract_embedding_not_nullish [of body]
  by (auto simp add: try_block_ok)

section \<open>Invariants of the loop\<close>

lemma attempt_loop_not_exhausted:
  "attempt \<le> maxRetries \<Longrightarrow> fst (attempt_loop net t attempt tr) \<noteq> Inl RetriesExhausted"
proof (induction net t attempt tr rule: attempt_loop.induct)
  case (1 net t attempt tr)
  obtain c evs where tb: "try_block (net (fetch_count tr)) attempt = (c, evs)"
    by (cases "try_block (net (fetch_count tr)) attempt")
  show ?case
  proof (cases c)
    case (Return v)
    with tb "1.prems" show ?thesis by (simp add: attempt_loop_Return)
  next
    case Continue
    with tb try_block_no_continue_last [of attempt "net (fetch_count tr)"]
    have lt: "attempt < maxRetries" by (cases "attempt < maxRetries") auto
    with "1.IH"(1) [OF "1.prems" tb [symmetric] Continue] tb Continue "1.prems"
    show ?thesis by (simp add: attempt_loop_Continue)
  next
    case (Throw e)
    with tb try_block_not_exhausted [of "net (fetch_count tr)" attempt]
    have ne: "e \<noteq> RetriesExhausted" by auto
    show ?thesis
    proof (cases "e = Thrown Nullish")
      case True
      with tb Throw "1.prems" show ?thesis by (simp add: attempt_loop_Throw_nullish)
    next
      case caught: False
      show ?thesis
      proof (cases "attempt = maxRetries")
        case True
        with tb Throw ne caught show ?thesis by (simp add: attempt_loop_Throw_last)
      next
        case False
        with "1.prems" have lt: "attempt < maxRetries" by simp
        with "1.IH"(2) [OF "1.prems" tb [symmetric] Throw caught False] tb Throw caught
        show ?thesis by (simp add: attempt_loop_Throw_retry)
      qed
    qed
  qed
qed

lemma attempt_loop_length:
  "attempt_loop net t attempt tr = (Inr v, tr') \<Longrightarrow> length v = 768"
proof (induction net t attempt tr rule: attempt_loop.induct)
  case (1 net t attempt tr)
  obtain c evs where tb: "try_block (net (fetch_count tr)) attempt = (c, evs)"
    by (cases "try_block (net (fetch_count tr)) attempt")
  show ?case
  proof (cases "attempt \<le> maxRetries")
    case False
    with "1.prems" show ?thesis by (simp add: attempt_loop.simps)
  next
    case le: True
    show ?thesis
    proof (cases c)
      case (Return w)
      with tb le "1.prems" have "w = v" by (simp add: attempt_loop_Return)
      with tb Return show ?thesis by (simp add: try_block_Return_length)
    next
      case Continue
      with "1.IH"(1) [OF le tb [symmetric] Continue] tb le "1.prems"
      show ?thesis by (simp add: attempt_loop_Continue)
    next
      case (Throw e)
      show ?thesis
      proof (cases "e = Thrown Nullish")
        case True
        with tb Throw le "1.prems" show ?thesis by (simp add: attempt_loop_Throw_nullish)
      next
        case caught: False
        show ?thesis
        proof (cases "attempt = maxRetries")
          case True
          with tb Throw caught "1.prems" show ?thesis by (simp add: attempt_loop_Throw_last)
        next
          case False
          with le have lt: "attempt < maxRetries" by simp
          with "1.IH"(2) [OF le tb [symmetric] Throw caught False] tb Throw caught "1.prems"
          show ?thesis by (simp add: attempt_loop_Throw_retry)
        qed
      qed
    qed
  qed
qed

lemma generateEmbedding_length:
  "generateEmbedding k net t tr = (Inr v, tr') \<Longrightarrow> length v = 768"
  by (auto simp add: generateEmbedding_def attempt_loop_length split: if_splits)

section \<open>Facts about the concrete inputs\<close>

lemma ok_success_response: "ok (success_response v)"
  by (simp add: ok_def success_response_def)

lemma not_ok_error_response: "st < 200 \<or> 299 < st \<Longrightarrow> \<not> ok (error_response st b)"
  by (auto simp add: ok_def error_response_def)

lemma extract_embedding_body:
  "extract_embedding (embedding_body v)
     = (if length v \<noteq> 768 then Inl (WrongDimensions (length v)) else Inr v)"
  by (simp add: extract_embedding_def embedding_body_def)

lemma length_ones: "length ones = 768"
  by (simp add: ones_def)

lemma key_present: "\<not> key_missing (Some ''jina_key'')"
  by (simp add: key_missing_def)

lemma eval_400_then_ok:
  "generateEmbedding (Some ''jina_key'') net_400_then_ok ''react'' []
     = (Inr ones, [Fetch ''react'', Sleep 4000, Fetch ''react''])"
proof -
  have 1: "attempt_loop net_400_then_ok ''react'' 1 []
             = attempt_loop net_400_then_ok ''react'' 2 [Fetch ''react'', Sleep 4000]"
    using attempt_loop_error_retry [of net_400_then_ok "[]" "error_response 400 ''Bad Request''"
        "''Bad Request''" 1 "''react''"]
    by (simp add: net_400_then_ok_def not_ok_error_response maxRetries_def
        numeral_2_eq_2 [symmetric]) (simp add: error_response_def)
  have 2: "attempt_loop net_400_then_ok ''react'' 2 [Fetch ''react'', Sleep 4000]
             = (Inr ones, [Fetch ''react'', Sleep 4000, Fetch ''react''])"
    using attempt_loop_success [of net_400_then_ok "[Fetch ''react'', Sleep 4000]"
        "success_response ones" "embedding_body ones" ones 2 "''react''"]
    by (simp add: net_400_then_ok_def ok_success_response extract_embedding_body length_ones
        maxRetries_def) (simp add: success_response_def)
  from 1 2 show ?thesis
    by (simp add: generateEmbedding_def key_present)
qed

lemma eval_short_then_ok:
  "generateEmbedding (Some ''jina_key'') net_short_then_ok ''react'' []
     = (Inr ones, [Fetch ''react'', Sleep 4000, Fetch ''react''])"
proof -
  have 1: "attempt_loop net_short_then_ok ''react'' 1 []
             = attempt_loop net_short_then_ok ''react'' 2 [Fetch ''react'', Sleep 4000]"
    using attempt_loop_malformed_retry [of net_short_then_ok "[]"
        "success_response [JNum 1, JNum 2, JNum 3]" "embedding_body [JNum 1, JNum 2, JNum 3]"
        "WrongDimensions 3" 1 "''react''"]
    by (simp add: net_short_then_ok_def ok_success_response extract_embedding_body
        maxRetries_def numeral_2_eq_2 [symmetric]) (simp add: success_response_def)
  have 2: "attempt_loop net_short_then_ok ''react'' 2 [Fetch ''react'', Sleep 4000]
             = (Inr ones, [Fetch ''react'', Sleep 4000, Fetch ''react''])"
    using attempt_loop_success [of net_short_then_ok "[Fetch ''react'', Sleep 4000]"
        "success_response ones" "embedding_body ones" ones 2 "''react''"]
    by (simp add: net_short_then_ok_def ok_success_response extract_embedding_body length_ones
        maxRetries_def) (simp add: success_response_def)
  from 1 2 show ?thesis
    by (simp add: generateEmbedding_def key_present)
qed

section \<open>The cache and the trigger, step by step\<close>

lemma cached_returns:
  "cachedUserSkillsEmbedding s = Some v \<Longrightarrow> generateUserSkillsEmbedding k net db s = (Inr v, s)"
  by (simp add: generateUserSkillsEmbedding_def)

lemma success_populates:
  "generateUserSkillsEmbedding k net db s = (Inr v, s') \<Longrightarrow> cachedUserSkillsEmbedding s' = Some v"
  by (auto simp add: generateUserSkillsEmbedding_def Let_def
      split: option.splits if_splits prod.splits sum.splits)

lemma prefs_not_set:
  assumes "cachedUserSkillsEmbedding s = None"
    and "error (db (query_count (trace s))) \<noteq> None \<or> data (db (query_count (trace s))) = None
         \<or> (\<exists>p. data (db (query_count (trace s))) = Some p \<and> skills p = [])"
  shows "generateUserSkillsEmbedding k net db s
           = (Inl PreferencesNotSet, s\<lparr>trace := trace s @ [Query]\<rparr>)"
  using assms
  by (auto simp add: generateUserSkillsEmbedding_def Let_def split: option.splits)

lemma first_call:
  assumes "cachedUserSkillsEmbedding s = None" and "\<not> key_missing k"
    and "db (query_count (trace s)) = \<lparr>data = Some p, error = None\<rparr>" and "skills p \<noteq> []"
    and "net (fetch_count (trace s)) = Resolves r" and "ok r" and "json_body r = Inr body"
    and "get_prop body ''data'' = Some (JArr (d # ds))"
    and "get_prop d ''embedding'' = Some (JArr v)" and "length v = 768"
  shows "generateUserSkillsEmbedding k net db s
           = (Inr v, s\<lparr>cachedUserSkillsEmbedding := Some v,
                        trace := trace s @ [Query, Fetch (join '', '' (skills p))]\<rparr>)"
proof -
  have ex: "extract_embedding body = Inr v"
    using assms by (auto simp add: extract_embedding_Inr_iff)
  have "attempt_loop net (join '', '' (skills p)) 1 (trace s @ [Query])
          = (Inr v, (trace s @ [Query]) @ [Fetch (join '', '' (skills p))])"
    using assms ex attempt_loop_success [of net "trace s @ [Query]" r body v 1]
    by (simp add: maxRetries_def)
  with assms show ?thesis
    by (simp add: generateUserSkillsEmbedding_def Let_def generateEmbedding_with_key)
qed

lemma handleTrigger_Inl:
  "trigger_try outcome = Inl e \<Longrightarrow> handleTrigger outcome c = failed c (catch_detail e)"
  by (simp add: handleTrigger_def)

lemma handleTrigger_Inr:
  "trigger_try outcome = Inr r \<Longrightarrow>
   handleTrigger outcome c = c\<lparr>isLoading := False, result := Some r\<rparr>"
  by (simp add: handleTrigger_def)

text \<open>What \<open>data.k1?.k2 || dflt\<close> and \<open>data.k || dflt\<close> come to, case by case.\<close>

lemma nested_or_else:
  assumes "(get_prop d k1 = Some sc \<and> get_prop sc k2 = Some x \<and> truthy x \<and> v = x)
           \<or> ((get_prop d k1 = None
                \<or> (get_prop d k1 = Some sc \<and> get_prop sc k2 = None)
                \<or> (get_prop d k1 = Some sc \<and> get_prop sc k2 = Some x \<and> \<not> truthy x))
               \<and> v = dflt)"
  shows "or_else (opt_chain (get_prop d k1) k2) dflt = v"
proof (cases "get_prop d k1")
  case None
  with assms show ?thesis by (auto simp add: or_else_def opt_chain_def)
next
  case (Some sc')
  with assms have sc: "sc' = sc" by auto
  show ?thesis
  proof (cases sc)
    case JNull
    with assms Some sc show ?thesis by (auto simp add: or_else_def opt_chain_def)
  qed (use assms Some sc in \<open>auto simp add: or_else_def opt_chain_def\<close>)
qed

lemma plain_or_else:
  assumes "(get_prop d k = Some x \<and> truthy x \<and> v = x)
           \<or> ((get_prop d k = None \<or> (get_prop d k = Some x \<and> \<not> truthy x)) \<and> v = dflt)"
  shows "or_else (get_prop d k) dflt = v"
  using assms by (auto simp add: or_else_def)

lemma trigger_try_ok:
  assumes "ok r" "json_body r = Inr d" "d \<noteq> JNull"
  shows "trigger_try (Resolves r)
     = (let jobsScraped = or_else (opt_chain (get_prop d ''scraped'') ''jobsScraped'') (JNum 0);
            jobsProcessed = or_else (opt_chain (get_prop d ''processed'') ''success'') (JNum 0)
        in if stringifiable jobsScraped \<and> stringifiable jobsProcessed
           then Inr \<lparr>success = True, message = SuccessMessage jobsScraped jobsProcessed\<rparr>
           else Inl TypeErrorConvert)"
  using assms by (cases d) (simp_all add: trigger_try_def)

lemma trigger_try_not_ok:
  assumes "\<not> ok r" "json_body r = Inr d" "d \<noteq> JNull"
  shows "trigger_try (Resolves r)
     = (let detail = or_else (get_prop d ''error'') (JStr ''Failed to run pipeline'')
        in if stringifiable detail
           then Inr \<lparr>success = False, message = ErrorMessage (Value detail)\<rparr>
           else Inl TypeErrorConvert)"
  using assms by (cases d) (simp_all add: trigger_try_def)

lemma trigger_try_null:
  "json_body r = Inr JNull \<Longrightarrow>
   trigger_try (Resolves r) = Inl (TypeErrorNull (if ok r then ''scraped'' else ''error''))"
  by (simp add: trigger_try_def)

lemma trigger_try_rejects:
  "outcome = Rejects e \<or> (outcome = Resolves r \<and> json_body r = Inl e)
   \<Longrightarrow> trigger_try outcome = Inl e"
  by (auto simp add: trigger_try_def)

lemma trigger_try_not_ok_fails:
  "\<not> ok r \<Longrightarrow> (\<exists>x. trigger_try (Resolves r) = Inl x)
     \<or> (\<exists>dt. trigger_try (Resolves r) = Inr \<lparr>success = False, message = ErrorMessage dt\<rparr>)"
  by (auto simp add: trigger_try_def Let_def split: sum.splits json.splits)

section \<open>Error statuses (C1)\<close>

text \<open>
  C1, as the code has it. The \<open>throw\<close> of line 57 sits inside the \<open>try\<close> block, so the
  \<open>catch\<close> of line 84 receives it. A response with a non-success status whose body was
  read makes the call fail with the error carrying that status and body, and without
  another request, when it answers the final attempt, whatever the status. On an earlier
  attempt a status that is neither 429 nor 500 or above is not final: the error is
  dropped, the loop waits \<open>2 ^ attempt * 2000\<close> ms and goes to the next attempt.
\<close>

theorem C1_error_status:
  assumes "net (fetch_count tr) = Resolves r" and "\<not> ok r" and "text_body r = Inr body"
  shows "(attempt = maxRetries \<longrightarrow>
            attempt_loop net t attempt tr = (Inl (ApiError (status r) body), tr @ [Fetch t]))
       \<and> (attempt < maxRetries \<and> status r \<noteq> 429 \<and> status r < 500 \<longrightarrow>
            attempt_loop net t attempt tr
              = attempt_loop net t (attempt + 1) (tr @ [Fetch t, Sleep (2 ^ attempt * 2000)]))"
  using assms attempt_loop_error_last [of net tr r body t]
    attempt_loop_error_retry [of net tr r body attempt t]
  by blast

text \<open>
  The theorem at a 404 response: final on attempt 3, retried after 4000 ms on attempt 1.
\<close>

theorem C1_error_status_witness:
  "attempt_loop (\<lambda>i. Resolves (error_response 404 ''Not Found'')) ''react'' 3 []
     = (Inl (ApiError 404 ''Not Found''), [Fetch ''react''])
   \<and> attempt_loop (\<lambda>i. Resolves (error_response 404 ''Not Found'')) ''react'' 1 []
     = attempt_loop (\<lambda>i. Resolves (error_response 404 ''Not Found'')) ''react'' 2
         [Fetch ''react'', Sleep 4000]"
  using C1_error_status [of "\<lambda>i. Resolves (error_response 404 ''Not Found'')" "[]"
      "error_response 404 ''Not Found''" "''Not Found''" 3 "''react''"]
    C1_error_status [of "\<lambda>i. Resolves (error_response 404 ''Not Found'')" "[]"
      "error_response 404 ''Not Found''" "''Not Found''" 1 "''react''"]
  by (simp add: not_ok_error_response maxRetries_def numeral_2_eq_2 [symmetric])
    (simp add: error_response_def)

text \<open>
  C1 as the specification states it does not hold: a 400 response to the first request
  is followed by a wait and a second request, and when that one succeeds the call returns
  its vector instead of failing with the 400 error.
\<close>

theorem C1_counterexample:
  "fst (generateEmbedding (Some ''jina_key'') net_400_then_ok ''react'' []) = Inr ones
   \<and> fst (generateEmbedding (Some ''jina_key'') net_400_then_ok ''react'' [])
        \<noteq> Inl (ApiError 400 ''Bad Request'')
   \<and> fetch_count (snd (generateEmbedding (Some ''jina_key'') net_400_then_ok ''react'' [])) = 2"
  by (simp add: eval_400_then_ok)

section \<open>Successful responses (C2)\<close>

text \<open>
  C2, as the code has it. For a response with a success status whose body parses: if
  \<open>data[0].embedding\<close> is a list of exactly 768 elements, the call returns that very list
  and sends nothing more. Otherwise the attempt raises a validation error (or the
  \<open>TypeError\<close> of reading \<open>data\<close> off \<open>null\<close>), the body's vector is never returned,
  and the error is the result of the call when this was the final attempt; on an
  earlier attempt the loop waits \<open>2 ^ attempt * 2000\<close> ms and tries again. Every
  vector generateEmbedding returns has exactly 768 elements.
\<close>

theorem C2_success_response:
  assumes "net (fetch_count tr) = Resolves r" and "ok r" and "json_body r = Inr body"
    and "attempt \<le> maxRetries"
  shows
    "(get_prop body ''data'' = Some (JArr (d # ds)) \<and> get_prop d ''embedding'' = Some (JArr v)
        \<and> length v = 768
      \<longrightarrow> attempt_loop net t attempt tr = (Inr v, tr @ [Fetch t]))
     \<and> (\<not> (\<exists>d ds v. get_prop body ''data'' = Some (JArr (d # ds))
               \<and> get_prop d ''embedding'' = Some (JArr v) \<and> length v = 768)
      \<longrightarrow> (\<exists>e. (e = Thrown (TypeErrorNull ''data'') \<or> e = InvalidResponseFormat
                \<or> e = EmbeddingNotArray \<or> (\<exists>n. n \<noteq> 768 \<and> e = WrongDimensions n))
              \<and> (attempt = maxRetries \<longrightarrow>
                    attempt_loop net t attempt tr = (Inl e, tr @ [Fetch t]))
              \<and> (attempt < maxRetries \<longrightarrow>
                    attempt_loop net t attempt tr
                      = attempt_loop net t (attempt + 1)
                          (tr @ [Fetch t, Sleep (2 ^ attempt * 2000)]))))
     \<and> (\<forall>k t0 tr0 w tr'. generateEmbedding k net t0 tr0 = (Inr w, tr') \<longrightarrow> length w = 768)"
  (is "(?well_formed \<longrightarrow> ?returned) \<and> (\<not> ?some_vector \<longrightarrow> ?rejected) \<and> ?length")
proof -
  have returned: ?returned if ?well_formed
  proof -
    from that have "extract_embedding body = Inr v"
      by (auto simp add: extract_embedding_Inr_iff)
    with assms show ?thesis
      by (simp add: attempt_loop_success)
  qed
  have rejected: ?rejected if "\<not> ?some_vector"
  proof -
    from that have "\<forall>v. extract_embedding body \<noteq> Inr v"
      unfolding extract_embedding_Inr_iff by blast
    then obtain e where e: "extract_embedding body = Inl e"
      by (cases "extract_embedding body") auto
    have last: "attempt = maxRetries \<longrightarrow>
        attempt_loop net t attempt tr = (Inl e, tr @ [Fetch t])"
      using assms e attempt_loop_malformed_last [of net tr r body e t] by simp
    have retry: "attempt < maxRetries \<longrightarrow>
        attempt_loop net t attempt tr
          = attempt_loop net t (attempt + 1) (tr @ [Fetch t, Sleep (2 ^ attempt * 2000)])"
      using assms e attempt_loop_malformed_retry [of net tr r body e attempt t] by simp
    from extract_embedding_Inl [OF e] last retry show ?thesis
      by blast
  qed
  have length: ?length
    by (auto dest: generateEmbedding_length)
  from returned rejected length show ?thesis by blast
qed

text \<open>
  The theorem at a well-formed body on attempt 1 and at a one-element vector on attempt 3.
\<close>

theorem C2_success_response_witness:
  "attempt_loop (\<lambda>i. Resolves (success_response ones)) ''react'' 1 []
     = (Inr ones, [Fetch ''react''])
   \<and> attempt_loop (\<lambda>i. Resolves (success_response [JNum 7])) ''react'' 3 []
     = (Inl (WrongDimensions 1), [Fetch ''react''])"
proof -
  have a: "get_prop (embedding_body ones) ''data''
             = Some (JArr (JObj [(''embedding'', JArr ones)] # []))"
    and b: "get_prop (JObj [(''embedding'', JArr ones)]) ''embedding'' = Some (JArr ones)"
    by (simp_all add: embedding_body_def)
  have c: "\<not> (\<exists>d ds v. get_prop (embedding_body [JNum 7]) ''data'' = Some (JArr (d # ds))
               \<and> get_prop d ''embedding'' = Some (JArr v) \<and> length v = 768)"
    by (auto simp add: embedding_body_def)
  have j: "json_body (success_response u) = Inr (embedding_body u)" for u
    by (simp add: success_response_def)
  have m: "attempt_loop (\<lambda>i. Resolves (success_response [JNum 7])) ''react'' 3 []
             = (Inl (WrongDimensions 1), [Fetch ''react''])"
    using attempt_loop_malformed_last [of "\<lambda>i. Resolves (success_response [JNum 7])" "[]"
        "success_response [JNum 7]" "embedding_body [JNum 7]" "WrongDimensions 1" "''react''"]
    by (simp add: ok_success_response j extract_embedding_body maxRetries_def)
  from a b c j m show ?thesis
    using C2_success_response [of "\<lambda>i. Resolves (success_response ones)" "[]"
        "success_response ones" "embedding_body ones" 1
        "JObj [(''embedding'', JArr ones)]" "[]" ones "''react''"]
      C2_success_response [of "\<lambda>i. Resolves (success_response [JNum 7])" "[]"
        "success_response [JNum 7]" "embedding_body [JNum 7]" 3 _ _ _ "''react''"]
    by (simp add: ok_success_response length_ones maxRetries_def)
qed

text \<open>
  C2 as the specification states it does not hold: a success response whose vector has
  three elements does not make the call fail when it answers the first attempt; the call
  waits 4000 ms, asks again and returns the vector of the second response.
\<close>

theorem C2_counterexample:
  "net_short_then_ok 0 = Resolves (success_response [JNum 1, JNum 2, JNum 3])
   \<and> ok (success_response [JNum 1, JNum 2, JNum 3])
   \<and> json_body (success_response [JNum 1, JNum 2, JNum 3])
        = Inr (JObj [(''data'', JArr [JObj [(''embedding'', JArr [JNum 1, JNum 2, JNum 3])]])])
   \<and> generateEmbedding (Some ''jina_key'') net_short_then_ok ''react'' []
        = (Inr ones, [Fetch ''react'', Sleep 4000, Fetch ''react''])"
  by (simp add: eval_short_then_ok net_short_then_ok_def ok_success_response)
    (simp add: success_response_def embedding_body_def)

section \<open>The user-skills cache (C3)\<close>

text \<open>
  C3. While the cache holds a vector, generateUserSkillsEmbedding returns it and leaves
  the process as it was: no request, no query, whatever the key, the network and the
  stored preferences are. Any call that returns a vector leaves the cache holding it, so
  the next call returns the same vector. In the scenario of the specification, where the
  provider answers each request with a well-formed success, two calls without a reset
  make exactly one request, and a third call after clearUserSkillsCache makes the second.
\<close>

theorem C3_cache:
  "(cachedUserSkillsEmbedding s = Some v
      \<longrightarrow> generateUserSkillsEmbedding k net db s = (Inr v, s))
   \<and> (generateUserSkillsEmbedding k net db s = (Inr v, s')
      \<longrightarrow> generateUserSkillsEmbedding k' net' db' s' = (Inr v, s'))
   \<and> (cachedUserSkillsEmbedding s = None \<and> \<not> key_missing k
      \<and> db (query_count (trace s)) = \<lparr>data = Some p1, error = None\<rparr> \<and> skills p1 \<noteq> []
      \<and> net (fetch_count (trace s)) = Resolves r1 \<and> ok r1 \<and> json_body r1 = Inr body1
      \<and> get_prop body1 ''data'' = Some (JArr (d1 # ds1))
      \<and> get_prop d1 ''embedding'' = Some (JArr v1) \<and> length v1 = 768
      \<and> s1 = s\<lparr>cachedUserSkillsEmbedding := Some v1,
                 trace := trace s @ [Query, Fetch (join '', '' (skills p1))]\<rparr>
    \<longrightarrow> generateUserSkillsEmbedding k net db s = (Inr v1, s1)
        \<and> generateUserSkillsEmbedding k net db s1 = (Inr v1, s1)
        \<and> fetch_count (trace s1) = fetch_count (trace s) + 1
        \<and> (db (query_count (trace s) + 1) = \<lparr>data = Some p2, error = None\<rparr> \<and> skills p2 \<noteq> []
            \<and> net (fetch_count (trace s) + 1) = Resolves r2 \<and> ok r2 \<and> json_body r2 = Inr body2
            \<and> get_prop body2 ''data'' = Some (JArr (d2 # ds2))
            \<and> get_prop d2 ''embedding'' = Some (JArr v2) \<and> length v2 = 768
            \<and> s2 = s\<lparr>cachedUserSkillsEmbedding := Some v2,
                       trace := trace s @ [Query, Fetch (join '', '' (skills p1)),
                                           Query, Fetch (join '', '' (skills p2))]\<rparr>
          \<longrightarrow> generateUserSkillsEmbedding k net db (clearUserSkillsCache s1) = (Inr v2, s2)
              \<and> fetch_count (trace s2) = fetch_count (trace s) + 2))"
  (is "(_ \<longrightarrow> ?hit) \<and> (_ \<longrightarrow> ?again)
       \<and> (?first \<longrightarrow> ?c1 \<and> ?c2 \<and> ?n1 \<and> (?second \<longrightarrow> ?c3 \<and> ?n2))")
proof -
  have hit: ?hit if "cachedUserSkillsEmbedding s = Some v"
    using that by (rule cached_returns)
  have again: ?again if "generateUserSkillsEmbedding k net db s = (Inr v, s')"
    using that by (intro cached_returns success_populates)
  have scenario: "?c1 \<and> ?c2 \<and> ?n1 \<and> (?second \<longrightarrow> ?c3 \<and> ?n2)" if a: ?first
  proof -
    have c1: ?c1
      using a first_call [of s k db p1 net r1 body1 d1 ds1 v1] by simp
    have c2: ?c2
      using a cached_returns [of s1 v1 k net db] by simp
    have n1: ?n1
      using a by simp
    have c3: "?c3 \<and> ?n2" if b: ?second
      using a b first_call [of "clearUserSkillsCache s1" k db p2 net r2 body2 d2 ds2 v2]
      by (simp add: clearUserSkillsCache_def)
    from c1 c2 n1 c3 show ?thesis by blast
  qed
  from hit again scenario show ?thesis by blast
qed

text \<open>
  The scenario run on a fresh process with the skills \<open>react\<close> and \<open>node\<close>.
\<close>

theorem C3_cache_witness:
  "generateUserSkillsEmbedding (Some ''jina_key'') (\<lambda>i. Resolves (success_response ones))
       (\<lambda>i. react_node) fresh
     = (Inr ones, \<lparr>cachedUserSkillsEmbedding = Some ones,
                    trace = [Query, Fetch ''react, node'']\<rparr>)
   \<and> generateUserSkillsEmbedding (Some ''jina_key'') (\<lambda>i. Resolves (success_response ones))
       (\<lambda>i. react_node)
       \<lparr>cachedUserSkillsEmbedding = Some ones, trace = [Query, Fetch ''react, node'']\<rparr>
     = (Inr ones, \<lparr>cachedUserSkillsEmbedding = Some ones,
                    trace = [Query, Fetch ''react, node'']\<rparr>)
   \<and> fetch_count [Query, Fetch ''react, node''] = 1
   \<and> generateUserSkillsEmbedding (Some ''jina_key'') (\<lambda>i. Resolves (success_response ones))
       (\<lambda>i. react_node)
       (clearUserSkillsCache
          \<lparr>cachedUserSkillsEmbedding = Some ones, trace = [Query, Fetch ''react, node'']\<rparr>)
     = (Inr ones, \<lparr>cachedUserSkillsEmbedding = Some ones,
                    trace = [Query, Fetch ''react, node'', Query, Fetch ''react, node'']\<rparr>)
   \<and> fetch_count [Query, Fetch ''react, node'', Query, Fetch ''react, node''] = 2"
proof -
  have a: "get_prop (embedding_body ones) ''data''
             = Some (JArr (JObj [(''embedding'', JArr ones)] # []))"
    and b: "get_prop (JObj [(''embedding'', JArr ones)]) ''embedding'' = Some (JArr ones)"
    by (simp_all add: embedding_body_def)
  have j: "json_body (success_response ones) = Inr (embedding_body ones)"
    by (simp add: success_response_def)
  have p: "react_node = \<lparr>data = Some \<lparr>skills = [''react'', ''node'']\<rparr>, error = None\<rparr>"
    by (simp add: react_node_def)
  from a b j p show ?thesis
    using C3_cache [where s = fresh and k = "Some ''jina_key''"
        and net = "\<lambda>i. Resolves (success_response ones)" and db = "\<lambda>i. react_node"
        and ?p1.0 = "\<lparr>skills = [''react'', ''node'']\<rparr>" and ?r1.0 = "success_response ones"
        and ?body1.0 = "embedding_body ones" and ?d1.0 = "JObj [(''embedding'', JArr ones)]"
        and ?ds1.0 = "[]" and ?v1.0 = ones
        and ?s1.0 = "\<lparr>cachedUserSkillsEmbedding = Some ones,
                       trace = [Query, Fetch ''react, node'']\<rparr>"
        and ?p2.0 = "\<lparr>skills = [''react'', ''node'']\<rparr>" and ?r2.0 = "success_response ones"
        and ?body2.0 = "embedding_body ones" and ?d2.0 = "JObj [(''embedding'', JArr ones)]"
        and ?ds2.0 = "[]" and ?v2.0 = ones
        and ?s2.0 = "\<lparr>cachedUserSkillsEmbedding = Some ones,
                       trace = [Query, Fetch ''react, node'', Query, Fetch ''react, node'']\<rparr>"]
    by (simp add: fresh_def key_present ok_success_response length_ones)
qed

section \<open>Rate limiting (C4)\<close>

text \<open>
  C4. When the response to an attempt before the last has status 429 (and its body was
  read), the loop waits \<open>2 ^ attempt * 5000\<close> ms and makes the next attempt. When the
  first two responses are 429 and the third is a well-formed success, generateEmbedding
  makes exactly three requests, waits 10000 ms after the first and 20000 ms after the
  second, and returns the vector of the third response.
\<close>

theorem C4_rate_limited:
  "(attempt < maxRetries \<and> net (fetch_count tr) = Resolves r \<and> status r = 429
      \<and> text_body r = Inr b
    \<longrightarrow> attempt_loop net t attempt tr
          = attempt_loop net t (attempt + 1) (tr @ [Fetch t, Sleep (2 ^ attempt * 5000)]))
   \<and> (\<not> key_missing k
      \<and> net (fetch_count tr) = Resolves r1 \<and> status r1 = 429 \<and> text_body r1 = Inr b1
      \<and> net (fetch_count tr + 1) = Resolves r2 \<and> status r2 = 429 \<and> text_body r2 = Inr b2
      \<and> net (fetch_count tr + 2) = Resolves r3 \<and> ok r3 \<and> json_body r3 = Inr body
      \<and> get_prop body ''data'' = Some (JArr (d # ds))
      \<and> get_prop d ''embedding'' = Some (JArr v) \<and> length v = 768
    \<longrightarrow> generateEmbedding k net t tr
          = (Inr v, tr @ [Fetch t, Sleep 10000, Fetch t, Sleep 20000, Fetch t])
        \<and> fetch_count (snd (generateEmbedding k net t tr)) = fetch_count tr + 3)"
  (is "(?limited \<longrightarrow> ?retry) \<and> (?scenario \<longrightarrow> ?run \<and> ?three)")
proof -
  have retry: ?retry if ?limited
    using that attempt_loop_429 [of net tr r b attempt t] by simp
  have run: ?run if a: ?scenario
  proof -
    from a have ex: "extract_embedding body = Inr v"
      by (auto simp add: extract_embedding_Inr_iff)
    have s1: "attempt_loop net t 1 tr = attempt_loop net t 2 (tr @ [Fetch t, Sleep 10000])"
      using a attempt_loop_429 [of net tr r1 b1 1 t]
      by (simp add: maxRetries_def numeral_2_eq_2 [symmetric])
    have s2: "attempt_loop net t 2 (tr @ [Fetch t, Sleep 10000])
                = attempt_loop net t 3 (tr @ [Fetch t, Sleep 10000, Fetch t, Sleep 20000])"
      using a attempt_loop_429 [of net "tr @ [Fetch t, Sleep 10000]" r2 b2 2 t]
      by (simp add: maxRetries_def)
    have s3: "attempt_loop net t 3 (tr @ [Fetch t, Sleep 10000, Fetch t, Sleep 20000])
                = (Inr v, tr @ [Fetch t, Sleep 10000, Fetch t, Sleep 20000, Fetch t])"
      using a ex
        attempt_loop_success [of net "tr @ [Fetch t, Sleep 10000, Fetch t, Sleep 20000]"
          r3 body v 3 t]
      by (simp add: maxRetries_def)
    from a s1 s2 s3 show ?thesis
      by (simp add: generateEmbedding_with_key)
  qed
  have three: ?three if a: ?scenario
    by (simp add: run [OF a])
  from retry run three show ?thesis by blast
qed

text \<open>
  The theorem on the scripted network that answers 429, 429 and then a success.
\<close>

theorem C4_rate_limited_witness:
  "attempt_loop net_429_429_ok ''react'' 2 [Fetch ''react'', Sleep 10000]
     = attempt_loop net_429_429_ok ''react'' 3
         [Fetch ''react'', Sleep 10000, Fetch ''react'', Sleep 20000]
   \<and> generateEmbedding (Some ''jina_key'') net_429_429_ok ''react'' []
     = (Inr ones, [Fetch ''react'', Sleep 10000, Fetch ''react'', Sleep 20000, Fetch ''react''])"
proof -
  have a: "get_prop (embedding_body ones) ''data''
             = Some (JArr (JObj [(''embedding'', JArr ones)] # []))"
    and b: "get_prop (JObj [(''embedding'', JArr ones)]) ''embedding'' = Some (JArr ones)"
    by (simp_all add: embedding_body_def)
  have j: "json_body (success_response ones) = Inr (embedding_body ones)"
    by (simp add: success_response_def)
  have e: "status (error_response 429 ''Too Many Requests'') = 429"
    "text_body (error_response 429 ''Too Many Requests'') = Inr ''Too Many Requests''"
    by (simp_all add: error_response_def)
  from a b j e show ?thesis
    using C4_rate_limited [of 2 net_429_429_ok "[Fetch ''react'', Sleep 10000]"
        "error_response 429 ''Too Many Requests''" "''Too Many Requests''" "''react''"
        "Some ''jina_key''" "error_response 429 ''Too Many Requests''" "''Too Many Requests''"
        "error_response 429 ''Too Many Requests''" "''Too Many Requests''"
        "success_response ones" "embedding_body ones" "JObj [(''embedding'', JArr ones)]" "[]" ones]
      C4_rate_limited [of 2 net_429_429_ok "[]"
        "error_response 429 ''Too Many Requests''" "''Too Many Requests''" "''react''"
        "Some ''jina_key''" "error_response 429 ''Too Many Requests''" "''Too Many Requests''"
        "error_response 429 ''Too Many Requests''" "''Too Many Requests''"
        "success_response ones" "embedding_body ones" "JObj [(''embedding'', JArr ones)]" "[]" ones]
    by (simp add: net_429_429_ok_def key_present ok_success_response length_ones maxRetries_def)
qed

section \<open>Server errors (C5)\<close>

text \<open>
  C5. When the response to an attempt before the last has a status of 500 or above (and
  its body was read), the loop waits 5000 ms and makes the next attempt. For three
  responses of status 500 in a row, generateEmbedding makes exactly three requests and
  fails with the error carrying the status and the body of the third response.
\<close>

theorem C5_server_error:
  "(attempt < maxRetries \<and> net (fetch_count tr) = Resolves r \<and> status r \<ge> 500
      \<and> text_body r = Inr b
    \<longrightarrow> attempt_loop net t attempt tr
          = attempt_loop net t (attempt + 1) (tr @ [Fetch t, Sleep 5000]))
   \<and> (\<not> key_missing k
      \<and> net (fetch_count tr) = Resolves r1 \<and> status r1 = 500 \<and> text_body r1 = Inr b1
      \<and> net (fetch_count tr + 1) = Resolves r2 \<and> status r2 = 500 \<and> text_body r2 = Inr b2
      \<and> net (fetch_count tr + 2) = Resolves r3 \<and> status r3 = 500 \<and> text_body r3 = Inr b3
    \<longrightarrow> generateEmbedding k net t tr
          = (Inl (ApiError (status r3) b3),
             tr @ [Fetch t, Sleep 5000, Fetch t, Sleep 5000, Fetch t])
        \<and> fetch_count (snd (generateEmbedding k net t tr)) = fetch_count tr + 3)"
  (is "(?failing \<longrightarrow> ?retry) \<and> (?scenario \<longrightarrow> ?run \<and> ?three)")
proof -
  have retry: ?retry if ?failing
    using that attempt_loop_5xx [of net tr r b attempt t] by simp
  have run: ?run if a: ?scenario
  proof -
    have s1: "attempt_loop net t 1 tr = attempt_loop net t 2 (tr @ [Fetch t, Sleep 5000])"
      using a attempt_loop_5xx [of net tr r1 b1 1 t]
      by (simp add: maxRetries_def numeral_2_eq_2 [symmetric])
    have s2: "attempt_loop net t 2 (tr @ [Fetch t, Sleep 5000])
                = attempt_loop net t 3 (tr @ [Fetch t, Sleep 5000, Fetch t, Sleep 5000])"
      using a attempt_loop_5xx [of net "tr @ [Fetch t, Sleep 5000]" r2 b2 2 t]
      by (simp add: maxRetries_def)
    have s3: "attempt_loop net t 3 (tr @ [Fetch t, Sleep 5000, Fetch t, Sleep 5000])
                = (Inl (ApiError (status r3) b3),
                   tr @ [Fetch t, Sleep 5000, Fetch t, Sleep 5000, Fetch t])"
      using a
        attempt_loop_error_last [of net "tr @ [Fetch t, Sleep 5000, Fetch t, Sleep 5000]" r3 b3 t]
      by (simp add: maxRetries_def not_ok_500)
    from a s1 s2 s3 show ?thesis
      by (simp add: generateEmbedding_with_key)
  qed
  have three: ?three if a: ?scenario
    by (simp add: run [OF a])
  from retry run three show ?thesis by blast
qed

text \<open>
  The theorem on the network that always answers 500, with a body of its own the third
  time.
\<close>

theorem C5_server_error_witness:
  "attempt_loop net_500 ''react'' 1 []
     = attempt_loop net_500 ''react'' 2 [Fetch ''react'', Sleep 5000]
   \<and> generateEmbedding (Some ''jina_key'') net_500 ''react'' []
     = (Inl (ApiError 500 ''third failure''),
        [Fetch ''react'', Sleep 5000, Fetch ''react'', Sleep 5000, Fetch ''react''])"
  using C5_server_error [of 1 net_500 "[]" "error_response 500 ''earlier failure''"
      "''earlier failure''" "''react''" "Some ''jina_key''"
      "error_response 500 ''earlier failure''" "''earlier failure''"
      "error_response 500 ''earlier failure''" "''earlier failure''"
      "error_response 500 ''third failure''" "''third failure''"]
  by (simp add: net_500_def key_present maxRetries_def numeral_2_eq_2 [symmetric])
    (simp add: error_response_def)

section \<open>Exceptions inside an attempt (C6)\<close>

text \<open>
  C6. When an attempt before the last throws an exception (the request rejects, or
  reading the body of the response does), the loop waits \<open>2 ^ attempt * 2000\<close> ms and
  makes the next attempt. When the final attempt throws, that exception is the error of
  the call, unchanged. For three rejected requests the call fails with the third
  exception; the first two are gone. This is so for every thrown value other than
  \<open>null\<close> and \<open>undefined\<close>, every \<open>Error\<close> object among them. A rejection with
  \<open>null\<close> or \<open>undefined\<close> is no exception object: the \<open>catch\<close> block fails on reading
  its \<open>message\<close>, and the call ends at that attempt with that \<open>TypeError\<close>, after one
  request and without a wait.
\<close>

theorem C6_exception:
  "(attempt < maxRetries \<and> e \<noteq> Nullish
      \<and> (net (fetch_count tr) = Rejects e
          \<or> (\<exists>r. net (fetch_count tr) = Resolves r
                \<and> ((\<not> ok r \<and> text_body r = Inl e) \<or> (ok r \<and> json_body r = Inl e))))
    \<longrightarrow> attempt_loop net t attempt tr
          = attempt_loop net t (attempt + 1) (tr @ [Fetch t, Sleep (2 ^ attempt * 2000)]))
   \<and> (attempt = maxRetries \<and> e \<noteq> Nullish
      \<and> (net (fetch_count tr) = Rejects e
          \<or> (\<exists>r. net (fetch_count tr) = Resolves r
                \<and> ((\<not> ok r \<and> text_body r = Inl e) \<or> (ok r \<and> json_body r = Inl e))))
    \<longrightarrow> attempt_loop net t attempt tr = (Inl (Thrown e), tr @ [Fetch t]))
   \<and> (\<not> key_missing k
      \<and> net (fetch_count tr) = Rejects e1 \<and> e1 \<noteq> Nullish
      \<and> net (fetch_count tr + 1) = Rejects e2 \<and> e2 \<noteq> Nullish
      \<and> net (fetch_count tr + 2) = Rejects e3 \<and> e3 \<noteq> Nullish
    \<longrightarrow> generateEmbedding k net t tr
          = (Inl (Thrown e3), tr @ [Fetch t, Sleep 4000, Fetch t, Sleep 8000, Fetch t]))
   \<and> (attempt \<le> maxRetries
      \<and> (net (fetch_count tr) = Rejects Nullish
          \<or> (\<exists>r. net (fetch_count tr) = Resolves r
                \<and> ((\<not> ok r \<and> text_body r = Inl Nullish)
                     \<or> (ok r \<and> json_body r = Inl Nullish))))
    \<longrightarrow> attempt_loop net t attempt tr
          = (Inl (Thrown (TypeErrorNull ''message'')), tr @ [Fetch t]))"
  (is "(?early \<longrightarrow> ?retry) \<and> (?final \<longrightarrow> ?rethrown) \<and> (?scenario \<longrightarrow> ?run)
       \<and> (?nullish \<longrightarrow> ?type_error)")
proof -
  have retry: ?retry if ?early
    using that attempt_loop_Rejects_retry [of net tr e attempt t]
      attempt_loop_body_rejects_retry [of net tr _ e attempt t]
    by blast
  have rethrown: ?rethrown if ?final
    using that attempt_loop_Rejects_last [of net tr e t]
      attempt_loop_body_rejects_last [of net tr _ e t]
    by blast
  have run: ?run if a: ?scenario
  proof -
    have s1: "attempt_loop net t 1 tr = attempt_loop net t 2 (tr @ [Fetch t, Sleep 4000])"
      using a attempt_loop_Rejects_retry [of net tr e1 1 t]
      by (simp add: maxRetries_def numeral_2_eq_2 [symmetric])
    have s2: "attempt_loop net t 2 (tr @ [Fetch t, Sleep 4000])
                = attempt_loop net t 3 (tr @ [Fetch t, Sleep 4000, Fetch t, Sleep 8000])"
      using a attempt_loop_Rejects_retry [of net "tr @ [Fetch t, Sleep 4000]" e2 2 t]
      by (simp add: maxRetries_def)
    have s3: "attempt_loop net t 3 (tr @ [Fetch t, Sleep 4000, Fetch t, Sleep 8000])
                = (Inl (Thrown e3), tr @ [Fetch t, Sleep 4000, Fetch t, Sleep 8000, Fetch t])"
      using a
        attempt_loop_Rejects_last [of net "tr @ [Fetch t, Sleep 4000, Fetch t, Sleep 8000]" e3 t]
      by (simp add: maxRetries_def)
    from a s1 s2 s3 show ?thesis
      by (simp add: generateEmbedding_with_key)
  qed
  have type_error: ?type_error if ?nullish
    using that attempt_loop_nullish [of net tr attempt t] by blast
  from retry rethrown run type_error show ?thesis by blast
qed

text \<open>
  The theorem on a network whose requests all reject, the third with its own message,
  and on one whose first request rejects with \<open>null\<close>.
\<close>

theorem C6_exception_witness:
  "attempt_loop net_down ''react'' 1 []
     = attempt_loop net_down ''react'' 2 [Fetch ''react'', Sleep 4000]
   \<and> attempt_loop net_down ''react'' 3
        [Fetch ''react'', Sleep 4000, Fetch ''react'', Sleep 8000]
     = (Inl (Thrown (ErrorInstance ''socket hang up'')),
        [Fetch ''react'', Sleep 4000, Fetch ''react'', Sleep 8000, Fetch ''react''])
   \<and> generateEmbedding (Some ''jina_key'') net_down ''react'' []
     = (Inl (Thrown (ErrorInstance ''socket hang up'')),
        [Fetch ''react'', Sleep 4000, Fetch ''react'', Sleep 8000, Fetch ''react''])
   \<and> attempt_loop net_null ''react'' 1 []
     = (Inl (Thrown (TypeErrorNull ''message'')), [Fetch ''react''])"
  using C6_exception [of 1 "ErrorInstance ''fetch failed''" net_down "[]" "''react''"
      "Some ''jina_key''" "ErrorInstance ''fetch failed''" "ErrorInstance ''fetch failed''"
      "ErrorInstance ''socket hang up''"]
    C6_exception [of 3 "ErrorInstance ''socket hang up''" net_down
      "[Fetch ''react'', Sleep 4000, Fetch ''react'', Sleep 8000]" "''react''"]
    C6_exception [of 1 _ net_null "[]" "''react''"]
  by (simp add: net_down_def net_null_def key_present maxRetries_def
      numeral_2_eq_2 [symmetric])

section \<open>Missing credential (C7)\<close>

text \<open>
  C7. Without an API credential (the variable unset, or set to the empty string),
  generateEmbedding fails at once with the missing-key error for every input text, and
  the trace is unchanged: no request is sent and nothing is waited for.
\<close>

theorem C7_missing_key:
  "key_missing k \<Longrightarrow> generateEmbedding k net t tr = (Inl MissingApiKey, tr)"
  by (simp add: generateEmbedding_def)

text \<open>
  The theorem with the variable unset.
\<close>

theorem C7_missing_key_witness:
  "generateEmbedding None net_down ''react, node'' [] = (Inl MissingApiKey, [])
   \<and> fetch_count [] = 0"
  using C7_missing_key [of None net_down "''react, node''" "[]"]
  by (simp add: key_missing_def)

section \<open>Missing preferences (C8)\<close>

text \<open>
  C8. When the query of the preferences reports an error, finds no row, or finds an
  empty skills list, generateUserSkillsEmbedding makes no request to the provider; and
  when the cache is empty, which is when the query is made at all, it fails with the
  preferences-not-set error, its only effect being the query.
\<close>

theorem C8_preferences_not_set:
  "(error (db (query_count (trace s))) \<noteq> None
      \<or> data (db (query_count (trace s))) = None
      \<or> (\<exists>p. data (db (query_count (trace s))) = Some p \<and> skills p = []))
   \<longrightarrow> (cachedUserSkillsEmbedding s = None
          \<longrightarrow> generateUserSkillsEmbedding k net db s
                = (Inl PreferencesNotSet, s\<lparr>trace := trace s @ [Query]\<rparr>))
       \<and> fetch_count (trace (snd (generateUserSkillsEmbedding k net db s)))
           = fetch_count (trace s)"
  (is "?missing \<longrightarrow> (?empty \<longrightarrow> ?fails) \<and> ?no_fetch")
proof (rule impI)
  assume m: ?missing
  have f: ?fails if ?empty
    using that m prefs_not_set [of s db k net] by simp
  have ?no_fetch
  proof (cases "cachedUserSkillsEmbedding s")
    case None
    with f show ?thesis by simp
  next
    case (Some v)
    then show ?thesis by (simp add: cached_returns)
  qed
  with f show "(?empty \<longrightarrow> ?fails) \<and> ?no_fetch" by blast
qed

text \<open>
  The theorem on a fresh process whose stored skills list is empty.
\<close>

theorem C8_preferences_not_set_witness:
  "generateUserSkillsEmbedding (Some ''jina_key'') net_429_429_ok (\<lambda>i. no_skills) fresh
     = (Inl PreferencesNotSet, \<lparr>cachedUserSkillsEmbedding = None, trace = [Query]\<rparr>)
   \<and> fetch_count (trace (snd (generateUserSkillsEmbedding (Some ''jina_key'') net_429_429_ok
        (\<lambda>i. no_skills) fresh))) = 0"
  using C8_preferences_not_set [of "\<lambda>i. no_skills" fresh "Some ''jina_key''" net_429_429_ok]
  by (simp add: no_skills_def fresh_def)

section \<open>The pipeline trigger (C9)\<close>

text \<open>
  C9. handleTrigger always ends with \<open>isLoading\<close> false and one result, and which
  one is fixed by the answer to the request. When the response has a 2xx status and its
  body parses to a value other than \<open>null\<close>, the result is the success result with the
  two counts \<open>scraped.jobsScraped\<close> and \<open>processed.success\<close>, each replaced by 0 when
  the field is absent (or falsy, 0 itself included), provided the message can be built
  from them. Every non-2xx status gives a failure result with one message: the body's
  \<open>error\<close> when it has a truthy one, the fixed text otherwise. Every thrown error gives
  a failure result with one message as well: the message of the \<open>Error\<close>, or the text
  \<open>Network error\<close> for a thrown value that is not an \<open>Error\<close>. That covers a rejected
  request, a body that does not parse, a \<open>null\<close> body (reading a property off it
  throws) and a count or error value that cannot be converted to a string.
\<close>

theorem C9_trigger:
  "(ok r \<and> json_body r = Inr d \<and> d \<noteq> JNull
      \<and> ((get_prop d ''scraped'' = Some sc \<and> get_prop sc ''jobsScraped'' = Some x \<and> truthy x
           \<and> jobsScraped = x)
          \<or> ((get_prop d ''scraped'' = None
               \<or> (get_prop d ''scraped'' = Some sc \<and> get_prop sc ''jobsScraped'' = None)
               \<or> (get_prop d ''scraped'' = Some sc \<and> get_prop sc ''jobsScraped'' = Some x
                   \<and> \<not> truthy x))
              \<and> jobsScraped = JNum 0))
      \<and> ((get_prop d ''processed'' = Some pr \<and> get_prop pr ''success'' = Some y \<and> truthy y
           \<and> jobsProcessed = y)
          \<or> ((get_prop d ''processed'' = None
               \<or> (get_prop d ''processed'' = Some pr \<and> get_prop pr ''success'' = None)
               \<or> (get_prop d ''processed'' = Some pr \<and> get_prop pr ''success'' = Some y
                   \<and> \<not> truthy y))
              \<and> jobsProcessed = JNum 0))
    \<longrightarrow> handleTrigger (Resolves r) c
          = (if stringifiable jobsScraped \<and> stringifiable jobsProcessed
             then succeeded c jobsScraped jobsProcessed
             else failed c (MessageOf TypeErrorConvert)))
   \<and> (\<not> ok r \<and> json_body r = Inr d \<and> d \<noteq> JNull
      \<and> ((get_prop d ''error'' = Some z \<and> truthy z \<and> detail = z)
          \<or> ((get_prop d ''error'' = None \<or> (get_prop d ''error'' = Some z \<and> \<not> truthy z))
              \<and> detail = JStr ''Failed to run pipeline''))
    \<longrightarrow> handleTrigger (Resolves r) c
          = (if stringifiable detail then failed c (Value detail)
             else failed c (MessageOf TypeErrorConvert)))
   \<and> (json_body r = Inr JNull
    \<longrightarrow> handleTrigger (Resolves r) c
          = failed c (MessageOf (TypeErrorNull (if ok r then ''scraped'' else ''error''))))
   \<and> (outcome = Rejects e \<or> (outcome = Resolves r \<and> json_body r = Inl e)
    \<longrightarrow> handleTrigger outcome c
          = (if e = NonError \<or> e = Nullish then failed c (Literal ''Network error'')
             else failed c (MessageOf e)))
   \<and> (\<not> ok r \<longrightarrow> (\<exists>dt. handleTrigger (Resolves r) c = failed c dt))"
  (is "(?good \<longrightarrow> ?success) \<and> (?bad \<longrightarrow> ?failure) \<and> (?null \<longrightarrow> ?null_failure)
       \<and> (?thrown \<longrightarrow> ?caught) \<and> (_ \<longrightarrow> ?any_failure)")
proof -
  have success: ?success if a: ?good
  proof -
    from a have s: "or_else (opt_chain (get_prop d ''scraped'') ''jobsScraped'') (JNum 0)
                     = jobsScraped"
      by (intro nested_or_else) blast
    from a have p: "or_else (opt_chain (get_prop d ''processed'') ''success'') (JNum 0)
                     = jobsProcessed"
      by (intro nested_or_else) blast
    from a have "trigger_try (Resolves r)
        = (if stringifiable jobsScraped \<and> stringifiable jobsProcessed
           then Inr \<lparr>success = True, message = SuccessMessage jobsScraped jobsProcessed\<rparr>
           else Inl TypeErrorConvert)"
      by (simp add: trigger_try_ok s p)
    then show ?thesis
      by (simp add: handleTrigger_Inl handleTrigger_Inr)
  qed
  have failure: ?failure if a: ?bad
  proof -
    from a have e: "or_else (get_prop d ''error'') (JStr ''Failed to run pipeline'') = detail"
      by (intro plain_or_else) blast
    from a have "trigger_try (Resolves r)
        = (if stringifiable detail
           then Inr \<lparr>success = False, message = ErrorMessage (Value detail)\<rparr>
           else Inl TypeErrorConvert)"
      by (simp add: trigger_try_not_ok e)
    then show ?thesis
      by (simp add: handleTrigger_Inl handleTrigger_Inr)
  qed
  have null_failure: ?null_failure if ?null
    using that by (simp add: handleTrigger_Inl trigger_try_null)
  have caught: ?caught if ?thrown
  proof -
    from that have "handleTrigger outcome c = failed c (catch_detail e)"
      by (intro handleTrigger_Inl trigger_try_rejects)
    then show ?thesis
      by (cases e) simp_all
  qed
  have any_failure: ?any_failure if "\<not> ok r"
    using trigger_try_not_ok_fails [OF that] handleTrigger_Inl [of "Resolves r" _ c]
      handleTrigger_Inr [of "Resolves r" _ c]
    by metis
  from success failure null_failure caught any_failure show ?thesis by blast
qed

text \<open>
  The theorem on a 200 response with 12 scraped jobs and no \<open>processed.success\<close>, on
  one that reports 0 scraped and 5 processed jobs, on one whose count is an object with a
  \<open>toString\<close> property of its own, on a 401 response, and on a request rejected with a
  value that is not an \<open>Error\<close>.
\<close>

theorem C9_trigger_witness:
  "handleTrigger (Resolves pipeline_ok) idle
     = \<lparr>isLoading = False,
        result = Some \<lparr>success = True, message = SuccessMessage (JNum 12) (JNum 0)\<rparr>\<rparr>
   \<and> handleTrigger (Resolves pipeline_zero) idle
     = \<lparr>isLoading = False,
        result = Some \<lparr>success = True, message = SuccessMessage (JNum 0) (JNum 5)\<rparr>\<rparr>
   \<and> handleTrigger (Resolves pipeline_odd) idle
     = \<lparr>isLoading = False,
        result = Some \<lparr>success = False,
                        message = ErrorMessage (MessageOf TypeErrorConvert)\<rparr>\<rparr>
   \<and> handleTrigger (Resolves pipeline_unauthorized) idle
     = \<lparr>isLoading = False,
        result = Some \<lparr>success = False,
                        message = ErrorMessage (Value (JStr ''Unauthorized''))\<rparr>\<rparr>
   \<and> handleTrigger (Rejects NonError) idle
     = \<lparr>isLoading = False,
        result = Some \<lparr>success = False,
                        message = ErrorMessage (Literal ''Network error'')\<rparr>\<rparr>"
  using
    C9_trigger [where r = pipeline_ok and c = idle
      and d = "JObj [(''scraped'', JObj [(''jobsScraped'', JNum 12)]), (''processed'', JObj [])]"
      and sc = "JObj [(''jobsScraped'', JNum 12)]" and x = "JNum 12" and jobsScraped = "JNum 12"
      and pr = "JObj []" and jobsProcessed = "JNum 0"]
    C9_trigger [where r = pipeline_zero and c = idle
      and d = "JObj [(''scraped'', JObj [(''jobsScraped'', JNum 0)]),
                     (''processed'', JObj [(''success'', JNum 5)])]"
      and sc = "JObj [(''jobsScraped'', JNum 0)]" and x = "JNum 0" and jobsScraped = "JNum 0"
      and pr = "JObj [(''success'', JNum 5)]" and y = "JNum 5" and jobsProcessed = "JNum 5"]
    C9_trigger [where r = pipeline_odd and c = idle
      and d = "JObj [(''scraped'', JObj [(''jobsScraped'', JObj [(''toString'', JNum 1)])])]"
      and sc = "JObj [(''jobsScraped'', JObj [(''toString'', JNum 1)])]"
      and x = "JObj [(''toString'', JNum 1)]" and jobsScraped = "JObj [(''toString'', JNum 1)]"
      and jobsProcessed = "JNum 0"]
    C9_trigger [where r = pipeline_unauthorized and c = idle
      and d = "JObj [(''error'', JStr ''Unauthorized'')]" and z = "JStr ''Unauthorized''"
      and detail = "JStr ''Unauthorized''"]
    C9_trigger [where outcome = "Rejects NonError" and e = NonError and c = idle]
  by (simp add: pipeline_ok_def pipeline_zero_def pipeline_odd_def pipeline_unauthorized_def
      idle_def ok_def)

section \<open>The throw after the loop (C10)\<close>

text \<open>
  C10. No call of generateEmbedding ends in the \<open>throw\<close> that follows the loop: the
  error of line 99 is never its result, with or without a credential, whatever the
  network answers.
\<close>

theorem C10_fallback_unreachable: "fst (generateEmbedding k net txt tr) \<noteq> Inl RetriesExhausted"
  by (simp add: generateEmbedding_def attempt_loop_not_exhausted maxRetries_def)

text \<open>
  The theorem on the network that always answers 500.
\<close>

theorem C10_fallback_unreachable_witness:
  "fst (generateEmbedding (Some ''jina_key'') net_500 ''react'' []) \<noteq> Inl RetriesExhausted"
  using C10_fallback_unreachable [of "Some ''jina_key''" net_500 "''react''" "[]"] by simp

end
